theory Spec2Isabelle
  imports Complex_Main "HOL-Library.Log_Nat"
begin

section \<open>A shallow embedding of the platformer's game loop (main.ts)\<close>

text \<open>
  The TypeScript type \<open>number\<close> is modelled by \<^typ>\<open>real\<close>: arithmetic is exact, there
  is no rounding and there are no NaN or infinite values. The number of ticks the main loop
  makes depends on the rounding of its additions and subtractions, so the loop is modelled
  a second time below, with every operation on the accumulator rounded as binary64 rounds
  it. Objects are modelled as values:
  every entity owns its bounding box and its velocity, every tile and entity sits in one
  collection only, so a method that mutates \<open>this\<close> becomes a function that returns the
  updated value. Drawing on the canvas becomes a list of draw commands.
\<close>

subsection \<open>Constants\<close>

definition MAX_FRAME_TIME :: real where
  "MAX_FRAME_TIME = 0.25"

definition DT :: real where
  "DT = 1 / 60"

subsection \<open>Utilities: Vector and BoundingBox\<close>

record Vector =
  x :: real
  y :: real

definition new_Vector :: "real \<Rightarrow> real \<Rightarrow> Vector" where
  "new_Vector x' y' = \<lparr>Vector.x = x', y = y'\<rparr>"

definition Vector_zero :: Vector where
  "Vector_zero = new_Vector 0 0"

record BoundingBox =
  x :: real
  y :: real
  width :: real
  height :: real

definition new_BoundingBox :: "real \<Rightarrow> real \<Rightarrow> real \<Rightarrow> real \<Rightarrow> BoundingBox" where
  "new_BoundingBox x' y' width' height' =
     \<lparr>BoundingBox.x = x', y = y', width = width', height = height'\<rparr>"

definition setPosition :: "BoundingBox \<Rightarrow> real \<Rightarrow> real \<Rightarrow> BoundingBox" where
  "setPosition this x' y' = this\<lparr>BoundingBox.x := x', BoundingBox.y := y'\<rparr>"

definition setSize :: "BoundingBox \<Rightarrow> real \<Rightarrow> real \<Rightarrow> BoundingBox" where
  "setSize this width' height' = this\<lparr>width := width', height := height'\<rparr>"

definition right :: "BoundingBox \<Rightarrow> real" where
  "right this = BoundingBox.x this + width this"

definition bottom :: "BoundingBox \<Rightarrow> real" where
  "bottom this = BoundingBox.y this + height this"

definition intersects :: "BoundingBox \<Rightarrow> BoundingBox \<Rightarrow> bool" where
  "intersects this other =
     (\<not> (BoundingBox.x this \<ge> right other \<or>
         right this \<le> BoundingBox.x other \<or>
         BoundingBox.y this \<ge> bottom other \<or>
         bottom this \<le> BoundingBox.y other))"




subsection \<open>Draw commands\<close>

datatype draw = StrokeRect real real real real

subsection \<open>Tile\<close>

definition Tile_size :: real where
  "Tile_size = 24"

record Tile =
  id :: real
  row :: real
  col :: real
  x :: real
  y :: real

definition new_Tile :: "real \<Rightarrow> real \<Rightarrow> real \<Rightarrow> Tile" where
  "new_Tile id' row' col' =
     \<lparr>Tile.id = id', row = row', col = col',
      x = col' * Tile_size, y = row' * Tile_size\<rparr>"

definition Tile_render :: "Tile \<Rightarrow> draw list" where
  "Tile_render this =
     (if Tile.id this = 1
      then [StrokeRect (Tile.x this) (Tile.y this) Tile_size Tile_size]
      else [])"

subsection \<open>Entity\<close>

record Entity =
  colorString :: string
  bb :: BoundingBox
  velocity :: Vector
  finished :: bool

definition new_Entity :: "string \<Rightarrow> BoundingBox \<Rightarrow> Vector \<Rightarrow> Entity" where
  "new_Entity colorString' bb' velocity' =
     \<lparr>colorString = colorString', bb = bb', velocity = velocity', finished = False\<rparr>"

definition updatePosition :: "Entity \<Rightarrow> real \<Rightarrow> Entity" where
  "updatePosition this dt =
     (let e1 = this\<lparr>bb := (bb this)
                 \<lparr>BoundingBox.x := BoundingBox.x (bb this) + Vector.x (velocity this) * dt\<rparr>\<rparr>
      in e1\<lparr>bb := (bb e1)
                 \<lparr>BoundingBox.y := BoundingBox.y (bb e1) + Vector.y (velocity e1) * dt\<rparr>\<rparr>)"

definition onEntityCollide :: "Entity \<Rightarrow> Entity \<Rightarrow> Entity" where
  "onEntityCollide this sender = this"

definition getCollidingEntities :: "Entity \<Rightarrow> Entity list" where
  "getCollidingEntities this = []"

definition handleEvents :: "Entity \<Rightarrow> Entity" where
  "handleEvents this = foldl onEntityCollide this (getCollidingEntities this)"

definition Entity_update :: "Entity \<Rightarrow> real \<Rightarrow> Entity" where
  "Entity_update this dt = handleEvents (updatePosition this dt)"

definition die :: "Entity \<Rightarrow> Entity" where
  "die this = this\<lparr>finished := True\<rparr>"

subsection \<open>Game\<close>

record Game =
  tiles :: "Tile list list"
  entities :: "Entity list"

text \<open>
  The body of the \<open>forEach\<close> callback of \<open>Game.update\<close>, for one entity: the entity's own
  update, then the test against the bottom of the grid.
\<close>

definition update_entity :: "Game \<Rightarrow> real \<Rightarrow> Entity \<Rightarrow> Entity" where
  "update_entity this dt e =
     (let e' = Entity_update e dt
      in if BoundingBox.y (bb e') > real (length (tiles this)) * Tile_size
         then die e' else e')"

definition Game_update :: "Game \<Rightarrow> real \<Rightarrow> Game" where
  "Game_update this dt = this\<lparr>entities := map (update_entity this dt) (entities this)\<rparr>"

text \<open>
  \<open>Entity.render\<close> is abstract: the renderer of the concrete entities is a parameter.
\<close>

definition Game_render :: "(Entity \<Rightarrow> draw list) \<Rightarrow> Game \<Rightarrow> draw list" where
  "Game_render render this =
     concat (map (\<lambda>row. concat (map Tile_render row)) (tiles this))
     @ concat (map render (entities this))"

subsection \<open>Main loop\<close>

record sched =
  previousTime :: real
  accumulator :: real

definition initial_sched :: sched where
  "initial_sched = \<lparr>previousTime = 0, accumulator = 0\<rparr>"

definition frameTime :: "real \<Rightarrow> real \<Rightarrow> real" where
  "frameTime currentTime previousTime' =
     min ((currentTime - previousTime') / 1000) MAX_FRAME_TIME"

text \<open>
  The \<open>while\<close> loop of \<open>loop\<close>. The method \<open>game.update\<close> is the argument \<open>update\<close>, so
  that the calls the loop makes can be counted; \<open>loop\<close> below passes \<open>Game_update\<close>.
\<close>

function while_accumulator :: "('g \<Rightarrow> real \<Rightarrow> 'g) \<Rightarrow> real \<Rightarrow> 'g \<Rightarrow> real \<times> 'g" where
  "while_accumulator update acc game =
     (if acc \<ge> DT
      then while_accumulator update (acc - DT) (update game DT)
      else (acc, game))"
  by pat_completeness auto
termination
proof (relation "measure (\<lambda>(update, acc, game). nat \<lfloor>acc / DT\<rfloor>)")
  show "wf (measure (\<lambda>(update :: 'g \<Rightarrow> real \<Rightarrow> 'g, acc, game). nat \<lfloor>acc / DT\<rfloor>))"
    by simp
next
  fix update :: "'g \<Rightarrow> real \<Rightarrow> 'g" and acc :: real and game :: 'g
  assume a: "DT \<le> acc"
  have "(acc - DT) / DT = acc / DT - 1"
    by (simp add: DT_def diff_divide_distrib)
  moreover have "1 \<le> acc / DT"
    using a by (simp add: DT_def)
  ultimately have "nat \<lfloor>(acc - DT) / DT\<rfloor> < nat \<lfloor>acc / DT\<rfloor>"
    by (simp add: nat_less_iff)
  then show "((update, acc - DT, update game DT), (update, acc, game))
               \<in> measure (\<lambda>(update, acc, game). nat \<lfloor>acc / DT\<rfloor>)"
    by simp
qed

declare while_accumulator.simps [simp del]

text \<open>
  One trigger of the scheduler: the new scheduler state, the game after the ticks of
  this frame, and what the one render draws. Asking the host for the next frame is left
  to the caller, which feeds the next timestamp.
\<close>

definition loop ::
  "(Entity \<Rightarrow> draw list) \<Rightarrow> real \<Rightarrow> sched \<Rightarrow> Game \<Rightarrow> sched \<times> Game \<times> draw list" where
  "loop render currentTime s game =
     (let acc = accumulator s + frameTime currentTime (previousTime s);
          (acc', game') = while_accumulator Game_update acc game
      in (\<lparr>previousTime = currentTime, accumulator = acc'\<rparr>, game',
          Game_render render game'))"

text \<open>The update calls the loop makes, as the list of their \<open>dt\<close> arguments.\<close>

definition update_calls :: "real \<Rightarrow> real list" where
  "update_calls acc = snd (while_accumulator (\<lambda>calls dt. calls @ [dt]) acc [])"

subsection \<open>Main: building the tile grid\<close>

datatype error = TypeError

text \<open>
  The inner \<open>for\<close> loop of \<open>main\<close>: \<open>tiles[r].push\<close> throws a TypeError when \<open>tiles[r]\<close>
  is undefined.
\<close>

function push_row ::
  "real list list \<Rightarrow> nat \<Rightarrow> nat \<Rightarrow> Tile list list \<Rightarrow> error + Tile list list" where
  "push_row m r c ts =
     (if c < length (m ! r)
      then (if r < length ts
            then push_row m r (Suc c)
                   (ts[r := ts ! r @ [new_Tile (m ! r ! c) (real r) (real c)]])
            else Inl TypeError)
      else Inr ts)"
  by pat_completeness auto
termination
  by (relation "measure (\<lambda>(m, r, c, ts). length (m ! r) - c)") auto

declare push_row.simps [simp del]

function push_rows ::
  "real list list \<Rightarrow> nat \<Rightarrow> Tile list list \<Rightarrow> error + Tile list list" where
  "push_rows m r ts =
     (if r < length m
      then (case push_row m r 0 ts of
              Inl e \<Rightarrow> Inl e
            | Inr ts' \<Rightarrow> push_rows m (Suc r) (ts' @ [[]]))
      else Inr ts)"
  by pat_completeness auto
termination
  by (relation "measure (\<lambda>(m, r, ts). length m - r)") auto

declare push_rows.simps [simp del]

definition build_tiles :: "real list list \<Rightarrow> error + Tile list list" where
  "build_tiles m = push_rows m 0 [[]]"

text \<open>The tiles of row \<open>r\<close> of the map from column \<open>c\<close> on, as the grid is to hold them.\<close>

definition tile_row :: "real list list \<Rightarrow> nat \<Rightarrow> nat \<Rightarrow> Tile list" where
  "tile_row m r c = map (\<lambda>c. new_Tile (m ! r ! c) (real r) (real c)) [c..<length (m ! r)]"

text \<open>
  The static map of \<open>main\<close>. It holds only the ids 0, 1 and 2, and each row is written
  here as the string of its 25 digits: \<open>cells\<close> turns the string into the row of numbers.
\<close>

definition cell :: "char \<Rightarrow> real" where
  "cell ch = (if ch = CHR ''1'' then 1 else if ch = CHR ''2'' then 2 else 0)"

definition cells :: "string \<Rightarrow> real list" where
  "cells row' = map cell row'"

definition level_map :: "real list list" where
  "level_map = map cells [
    ''1111111111111111111111111'',
    ''1000100000000010000010002'',
    ''1000100000000010000010000'',
    ''1010000000000000001010000'',
    ''1010000010000111001010000'',
    ''1010000000000010001011000'',
    ''1010000000000010001010000'',
    ''1011000000000010001010000'',
    ''1000000000000010011011000'',
    ''1001100000000010001010000'',
    ''1000100001000010001010000'',
    ''1000111111000010001011000'',
    ''1000000000000111001010000'',
    ''1100000000000000001010000'',
    ''1111111111111111111011100'',
    ''1000000000000000000000100'',
    ''1000000000000000000000100'',
    ''1000000000000000000000110'',
    ''1000000000000000000000000'',
    ''1000000010000000000000000'',
    ''1100000000000000000000110'',
    ''1000000000000001000000100'',
    ''1000000000000000000000100'',
    ''1100000000000000000000100'',
    ''1000000000000000000000100'',
    ''1000000000000010000000100'',
    ''1000000100000000000001100'',
    ''0000000000000000000000000'',
    ''0000000000000000000000000'',
    ''0000000000000000000000000'',
    ''0000000000000000000000000'',
    ''0000000000000000000000000'',
    ''0000000000000000000000000'',
    ''0000000000000000000000000'',
    ''0000000000000000000000000'',
    ''0000000000000000000000000'',
    ''0000000000000000000000000'',
    ''0000000000000000000000000'',
    ''0000000000000000000000000'',
    ''0000000000000000000000000'',
    ''0000000000000000000000000'',
    ''0000000000000000000000000'']"

text \<open>
  The game \<open>main\<close> hands to the first \<open>loop\<close>: the grid built from the map, and no
  entities.
\<close>

definition main :: "error + Game" where
  "main = (case build_tiles level_map of
             Inl e \<Rightarrow> Inl e
           | Inr ts \<Rightarrow> Inr \<lparr>tiles = ts, entities = []\<rparr>)"

subsection \<open>Main loop on binary64\<close>

text \<open>
  A finite binary64 number is a real number. An arithmetic operation of the code returns
  the exact result rounded to the nearest binary64 number, ties to the even significand:
  \<open>fl\<close> is that rounding, for significands of 53 bits and spacing \<open>2^-1074\<close> in the
  subnormal range. Results of magnitude \<open>2^1024\<close> or more (the infinities) and NaN are
  not modelled. Comparisons and \<open>Math.min\<close> are exact.
\<close>

definition round_half_even :: "real \<Rightarrow> int" where
  "round_half_even v =
     (let f = \<lfloor>v\<rfloor>; r = v - of_int f
      in if r < 1 / 2 then f else if 1 / 2 < r then f + 1 else if even f then f else f + 1)"

definition emin :: nat where
  "emin = 1074"

definition fl :: "real \<Rightarrow> real" where
  "fl v =
     (let s = \<bar>v\<bar> * 2 ^ emin; k = nat (bitlen \<lfloor>s\<rfloor> - 53)
      in sgn v * (of_int (round_half_even (s / 2 ^ k)) * 2 ^ k / 2 ^ emin))"










section \<open>Properties\<close>

subsection \<open>The while loop in closed form\<close>

lemma floor_step:
  assumes "DT \<le> acc"
  shows "nat \<lfloor>acc / DT\<rfloor> = Suc (nat \<lfloor>(acc - DT) / DT\<rfloor>)"
proof -
  have d: "(acc - DT) / DT = acc / DT - 1"
    by (simp add: DT_def diff_divide_distrib)
  have "1 \<le> acc / DT"
    using assms by (simp add: DT_def)
  then have k: "1 \<le> \<lfloor>acc / DT\<rfloor>"
    by linarith
  have "\<lfloor>(acc - DT) / DT\<rfloor> = \<lfloor>acc / DT\<rfloor> - 1"
    by (simp only: d floor_diff_one)
  with k show ?thesis
    by linarith
qed

lemma floor_stop:
  assumes "\<not> DT \<le> acc"
  shows "nat \<lfloor>acc / DT\<rfloor> = 0"
proof -
  have "acc / DT < 1"
    using assms by (simp add: DT_def)
  then have "\<lfloor>acc / DT\<rfloor> \<le> 0"
    by linarith
  then show ?thesis
    by simp
qed

lemma while_accumulator_eq:
  "while_accumulator update acc game =
     (acc - real (nat \<lfloor>acc / DT\<rfloor>) * DT, ((\<lambda>g. update g DT) ^^ nat \<lfloor>acc / DT\<rfloor>) game)"
proof (induction update acc game rule: while_accumulator.induct)
  case (1 update acc game)
  show ?case
  proof (cases "DT \<le> acc")
    case True
    have "while_accumulator update acc game
            = while_accumulator update (acc - DT) (update game DT)"
      using True by (simp only: while_accumulator.simps [of update acc game] if_True)
    also have "\<dots> = (acc - DT - real (nat \<lfloor>(acc - DT) / DT\<rfloor>) * DT,
                     ((\<lambda>g. update g DT) ^^ nat \<lfloor>(acc - DT) / DT\<rfloor>) (update game DT))"
      using "1.IH" [OF True] .
    also have "\<dots> = (acc - real (nat \<lfloor>acc / DT\<rfloor>) * DT,
                     ((\<lambda>g. update g DT) ^^ nat \<lfloor>acc / DT\<rfloor>) game)"
      by (simp only: floor_step [OF True] funpow_Suc_right o_apply of_nat_Suc)
         (simp add: algebra_simps)
    finally show ?thesis .
  next
    case False
    have "while_accumulator update acc game = (acc, game)"
      using False by (simp only: while_accumulator.simps [of update acc game] if_False)
    then show ?thesis
      by (simp add: floor_stop [OF False])
  qed
qed

lemma funpow_log: "((\<lambda>calls. calls @ [d]) ^^ n) cs = cs @ replicate n d"
  by (induction n arbitrary: cs) (simp_all add: replicate_append_same)

lemma update_calls_eq: "update_calls acc = replicate (nat \<lfloor>acc / DT\<rfloor>) DT"
  by (simp add: update_calls_def while_accumulator_eq funpow_log)

lemma remainder_bounds:
  assumes "0 \<le> acc"
  shows "0 \<le> acc - real (nat \<lfloor>acc / DT\<rfloor>) * DT"
    and "acc - real (nat \<lfloor>acc / DT\<rfloor>) * DT < DT"
proof -
  have p: "0 \<le> acc / DT"
    using assms by (simp add: DT_def)
  then have r: "real (nat \<lfloor>acc / DT\<rfloor>) = of_int \<lfloor>acc / DT\<rfloor>"
    by simp
  have "of_int \<lfloor>acc / DT\<rfloor> \<le> acc / DT"
    by simp
  then have "of_int \<lfloor>acc / DT\<rfloor> * DT \<le> acc"
    by (simp add: DT_def)
  then show "0 \<le> acc - real (nat \<lfloor>acc / DT\<rfloor>) * DT"
    using r by simp
  have "acc / DT < of_int \<lfloor>acc / DT\<rfloor> + 1"
    by linarith
  then have "acc < (of_int \<lfloor>acc / DT\<rfloor> + 1) * DT"
    by (simp add: DT_def)
  then show "acc - real (nat \<lfloor>acc / DT\<rfloor>) * DT < DT"
    using r by (simp add: algebra_simps)
qed

lemma frameTime_nonneg: "p \<le> t \<Longrightarrow> 0 \<le> frameTime t p"
  by (simp add: frameTime_def MAX_FRAME_TIME_def)

lemma loop_eq:
  "loop render currentTime s game =
     (let acc = accumulator s + frameTime currentTime (previousTime s);
          n = nat \<lfloor>acc / DT\<rfloor>;
          game' = ((\<lambda>g. Game_update g DT) ^^ n) game
      in (\<lparr>previousTime = currentTime, accumulator = acc - real n * DT\<rparr>, game',
          Game_render render game'))"
  by (simp add: loop_def while_accumulator_eq Let_def)

subsection \<open>Entities and the game\<close>

lemma handleEvents_id: "handleEvents e = e"
  by (simp add: handleEvents_def getCollidingEntities_def)

lemma Entity_update_finished: "finished (Entity_update e dt) = finished e"
  by (simp add: Entity_update_def handleEvents_id updatePosition_def Let_def)

lemma update_entity_finished:
  "finished (update_entity g dt e) =
     (finished e \<or> real (length (tiles g)) * Tile_size < BoundingBox.y (bb (Entity_update e dt)))"
  by (simp add: update_entity_def Let_def die_def Entity_update_finished)

lemma update_entity_bb: "bb (update_entity g dt e) = bb (Entity_update e dt)"
  by (simp add: update_entity_def Let_def die_def)

lemma Game_update_tiles: "tiles (Game_update g dt) = tiles g"
  by (simp add: Game_update_def)

lemma Game_update_length: "length (entities (Game_update g dt)) = length (entities g)"
  by (simp add: Game_update_def)

lemma Game_update_nth:
  "i < length (entities g) \<Longrightarrow>
   entities (Game_update g dt) ! i = update_entity g dt (entities g ! i)"
  by (simp add: Game_update_def)

lemma ticks_tiles: "tiles (((\<lambda>g. Game_update g dt) ^^ n) g) = tiles g"
  by (induction n) (simp_all add: Game_update_tiles)

lemma ticks_length: "length (entities (((\<lambda>g. Game_update g dt) ^^ n) g)) = length (entities g)"
  by (induction n) (simp_all add: Game_update_length)

lemma ticks_finished:
  "i < length (entities g) \<Longrightarrow> finished (entities g ! i) \<Longrightarrow>
   finished (entities (((\<lambda>g. Game_update g dt) ^^ n) g) ! i)"
  by (induction n) (simp_all add: Game_update_nth ticks_length update_entity_finished)

subsection \<open>Building the grid\<close>

lemma push_row_eq:
  "r < length ts \<Longrightarrow> push_row m r c ts = Inr (ts[r := ts ! r @ tile_row m r c])"
proof (induction m r c ts rule: push_row.induct)
  case (1 m r c ts)
  show ?case
  proof (cases "c < length (m ! r)")
    case True
    have "push_row m r c ts
            = push_row m r (Suc c) (ts[r := ts ! r @ [new_Tile (m ! r ! c) (real r) (real c)]])"
      using True "1.prems" by (simp add: push_row.simps [of m r c ts])
    also have "\<dots> = Inr (ts[r := ts ! r @ [new_Tile (m ! r ! c) (real r) (real c)]
                                  @ tile_row m r (Suc c)])"
      using "1.IH" [OF True "1.prems"] "1.prems" by simp
    also have "[new_Tile (m ! r ! c) (real r) (real c)] @ tile_row m r (Suc c) = tile_row m r c"
      using True by (simp add: tile_row_def upt_conv_Cons)
    finally show ?thesis .
  next
    case False
    then have "tile_row m r c = []"
      by (simp add: tile_row_def)
    then show ?thesis
      using False by (simp add: push_row.simps [of m r c ts])
  qed
qed

lemma push_rows_eq:
  "length ts = Suc r \<Longrightarrow> ts ! r = [] \<Longrightarrow>
   push_rows m r ts = Inr (take r ts @ map (\<lambda>r. tile_row m r 0) [r..<length m] @ [[]])"
proof (induction m r ts rule: push_rows.induct)
  case (1 m r ts)
  show ?case
  proof (cases "r < length m")
    case True
    let ?ts' = "ts[r := tile_row m r 0]"
    have row: "push_row m r 0 ts = Inr ?ts'"
      using push_row_eq [of r ts m 0] "1.prems" by simp
    have "push_rows m r ts = push_rows m (Suc r) (?ts' @ [[]])"
      using True row by (simp add: push_rows.simps [of m r ts])
    also have "\<dots> = Inr (take (Suc r) (?ts' @ [[]])
                          @ map (\<lambda>r. tile_row m r 0) [Suc r..<length m] @ [[]])"
      using "1.IH" [OF True row] "1.prems" by (simp add: nth_append)
    also have "take (Suc r) (?ts' @ [[]]) = take r ts @ [tile_row m r 0]"
      using "1.prems" by (simp add: upd_conv_take_nth_drop)
    finally show ?thesis
      using True by (simp add: upt_conv_Cons)
  next
    case False
    then have "push_rows m r ts = Inr ts"
      by (simp add: push_rows.simps [of m r ts])
    moreover have "take r ts @ [[]] = ts"
      using "1.prems" by (metis lessI take_Suc_conv_app_nth take_all order_refl)
    ultimately show ?thesis
      using False by simp
  qed
qed

lemma build_tiles_eq:
  "build_tiles m = Inr (map (\<lambda>r. tile_row m r 0) [0..<length m] @ [[]])"
  using push_rows_eq [of "[[]]" 0 m] by (simp add: build_tiles_def)

lemma level_map_length: "length level_map = 42"
  by (simp add: level_map_def)

lemma level_map_row_1: "level_map ! Suc 0 = cells ''1000100000000010000010002''"
  by (simp add: level_map_def)

subsection \<open>Rounding to binary64\<close>





lemma fl_0: "fl 0 = 0"
  by (simp add: fl_def)









subsection \<open>The while loop on binary64\<close>










subsection \<open>Two triggers evaluated: timestamps 43 and 250\<close>



























subsection \<open>BoundingBox\<close>

text \<open>
  C6. \<open>BoundingBox.intersects\<close> is symmetric: for all bounding boxes \<open>a\<close> and \<open>b\<close>,
  \<open>a.intersects(b)\<close> equals \<open>b.intersects(a)\<close>.
\<close>

theorem intersects_symmetric: "intersects a b = intersects b a"
  by (auto simp: intersects_def)




text \<open>
  C10. Width and height stay non-negative. \<open>setPosition\<close> and \<open>Entity.updatePosition\<close>
  leave the width and the height of a box as they are, so they keep them non-negative;
  \<open>setSize(w, h)\<close> stores its arguments as they come, so after it the width and the
  height are non-negative exactly when \<open>w\<close> and \<open>h\<close> are.
\<close>

theorem size_preserved_by_moves:
  assumes "0 \<le> width b" and "0 \<le> height b"
  shows "width (setPosition b x' y') = width b \<and> height (setPosition b x' y') = height b
       \<and> 0 \<le> width (setPosition b x' y') \<and> 0 \<le> height (setPosition b x' y')
       \<and> width (bb (updatePosition (e\<lparr>bb := b\<rparr>) dt)) = width b
       \<and> height (bb (updatePosition (e\<lparr>bb := b\<rparr>) dt)) = height b
       \<and> 0 \<le> width (bb (updatePosition (e\<lparr>bb := b\<rparr>) dt))
       \<and> 0 \<le> height (bb (updatePosition (e\<lparr>bb := b\<rparr>) dt))
       \<and> width (setSize b w h) = w \<and> height (setSize b w h) = h
       \<and> ((0 \<le> width (setSize b w h) \<and> 0 \<le> height (setSize b w h)) = (0 \<le> w \<and> 0 \<le> h))"
  using assms by (simp add: setPosition_def setSize_def updatePosition_def Let_def)

theorem size_preserved_by_moves_witness:
  "0 \<le> width (new_BoundingBox 0 0 10 10) \<and> 0 \<le> height (new_BoundingBox 0 0 10 10)
   \<and> width (setPosition (new_BoundingBox 0 0 10 10) 3 4) = 10
   \<and> height (setPosition (new_BoundingBox 0 0 10 10) 3 4) = 10
   \<and> width (bb (updatePosition
                  (new_Entity ''red'' (new_BoundingBox 0 0 10 10) (new_Vector 0 48)) DT)) = 10
   \<and> height (bb (updatePosition
                   (new_Entity ''red'' (new_BoundingBox 0 0 10 10) (new_Vector 0 48)) DT)) = 10
   \<and> width (setSize (new_BoundingBox 0 0 10 10) 2 0) = 2
   \<and> height (setSize (new_BoundingBox 0 0 10 10) 2 0) = 0"
  using size_preserved_by_moves
          [of "new_BoundingBox 0 0 10 10" 3 4
              "new_Entity ''red'' (new_BoundingBox 0 0 10 10) (new_Vector 0 48)" DT 2 0]
  by (simp add: new_BoundingBox_def new_Entity_def)

text \<open>
  As the claim has it, for every operation, it fails: \<open>setSize(-1, -1)\<close> on the box
  \<open>{0,0,10,10}\<close> leaves a negative width and height.
\<close>

theorem setSize_negative_counterexample:
  "\<not> (0 \<le> width (new_BoundingBox 0 0 10 10) \<and> 0 \<le> height (new_BoundingBox 0 0 10 10)
       \<longrightarrow> 0 \<le> width (setSize (new_BoundingBox 0 0 10 10) (- 1) (- 1))
         \<and> 0 \<le> height (setSize (new_BoundingBox 0 0 10 10) (- 1) (- 1)))"
  by (simp add: setSize_def new_BoundingBox_def)

subsection \<open>Entity\<close>

text \<open>
  C7. For the base entity, \<open>update(dt)\<close> is one step of Euler integration: \<open>bb.x\<close>
  becomes \<open>bb.x + velocity.x * dt\<close>, \<open>bb.y\<close> becomes \<open>bb.y + velocity.y * dt\<close>, and the
  width, the height, the velocity, the colour and the finished flag are unchanged; the
  base \<open>getCollidingEntities\<close> returns the empty list and \<open>onEntityCollide\<close> does nothing,
  so \<open>handleEvents\<close> has no effect.
\<close>

theorem entity_update_euler:
  "Entity_update e dt =
     e\<lparr>bb := (bb e)\<lparr>BoundingBox.x := BoundingBox.x (bb e) + Vector.x (velocity e) * dt,
                    BoundingBox.y := BoundingBox.y (bb e) + Vector.y (velocity e) * dt\<rparr>\<rparr>
   \<and> BoundingBox.x (bb (Entity_update e dt)) = BoundingBox.x (bb e) + Vector.x (velocity e) * dt
   \<and> BoundingBox.y (bb (Entity_update e dt)) = BoundingBox.y (bb e) + Vector.y (velocity e) * dt
   \<and> width (bb (Entity_update e dt)) = width (bb e)
   \<and> height (bb (Entity_update e dt)) = height (bb e)
   \<and> velocity (Entity_update e dt) = velocity e
   \<and> colorString (Entity_update e dt) = colorString e
   \<and> finished (Entity_update e dt) = finished e
   \<and> getCollidingEntities e = []
   \<and> onEntityCollide e sender = e
   \<and> handleEvents e = e"
  by (simp add: Entity_update_def handleEvents_def getCollidingEntities_def
      onEntityCollide_def updatePosition_def Let_def)

subsection \<open>Tile\<close>

text \<open>
  C9. A tile constructed at row \<open>r\<close> and column \<open>c\<close> has \<open>x = c * 24\<close> and \<open>y = r * 24\<close>;
  the game's update and the scheduler's loop leave the grid as it is; \<open>Tile.render\<close>
  produces a draw call if and only if the tile's id is 1, so ids 0 and 2 draw nothing.
\<close>

theorem tile_position_and_render:
  "Tile.x (new_Tile i r c) = c * 24 \<and> Tile.y (new_Tile i r c) = r * 24 \<and> Tile_size = 24
   \<and> Tile.id (new_Tile i r c) = i \<and> row (new_Tile i r c) = r \<and> col (new_Tile i r c) = c
   \<and> (Tile_render t \<noteq> []) = (Tile.id t = 1)
   \<and> Tile_render t = (if Tile.id t = 1 then [StrokeRect (Tile.x t) (Tile.y t) 24 24] else [])
   \<and> Tile_render (new_Tile 1 r c) = [StrokeRect (c * 24) (r * 24) 24 24]
   \<and> Tile_render (new_Tile 0 r c) = [] \<and> Tile_render (new_Tile 2 r c) = []
   \<and> tiles (Game_update g dt) = tiles g
   \<and> tiles (fst (snd (loop render currentTime s g))) = tiles g"
  by (simp add: new_Tile_def Tile_size_def Tile_render_def Game_update_tiles loop_eq Let_def
      ticks_tiles)

subsection \<open>Main loop\<close>

text \<open>
  C5. The frame time added to the accumulator is
  \<open>min((currentTime - previousTime) / 1000, MAX_FRAME_TIME)\<close>, which never exceeds
  \<open>MAX_FRAME_TIME = 0.25\<close>: a gap of ten seconds adds 0.25, and the accumulator after a
  trigger is at most the accumulator before it plus 0.25. On the first invocation
  \<open>previousTime\<close> is 0, so the first frame time is \<open>min(timestamp / 1000, 0.25)\<close>.
\<close>

theorem frame_time_clamped:
  "frameTime currentTime prev = min ((currentTime - prev) / 1000) MAX_FRAME_TIME
   \<and> MAX_FRAME_TIME = 0.25
   \<and> frameTime currentTime prev \<le> MAX_FRAME_TIME
   \<and> frameTime (prev + 10000) prev = 0.25
   \<and> previousTime initial_sched = 0
   \<and> frameTime currentTime (previousTime initial_sched) = min (currentTime / 1000) 0.25
   \<and> accumulator (fst (loop render currentTime s game))
       = accumulator s + frameTime currentTime (previousTime s)
         - real (nat \<lfloor>(accumulator s + frameTime currentTime (previousTime s)) / DT\<rfloor>) * DT
   \<and> accumulator (fst (loop render currentTime s game)) \<le> accumulator s + MAX_FRAME_TIME"
proof -
  have le: "frameTime currentTime (previousTime s) \<le> MAX_FRAME_TIME"
    by (simp add: frameTime_def)
  have "0 \<le> real (nat \<lfloor>(accumulator s + frameTime currentTime (previousTime s)) / DT\<rfloor>) * DT"
    by (simp add: DT_def)
  with le have "accumulator s + frameTime currentTime (previousTime s)
         - real (nat \<lfloor>(accumulator s + frameTime currentTime (previousTime s)) / DT\<rfloor>) * DT
       \<le> accumulator s + MAX_FRAME_TIME"
    by linarith
  then show ?thesis
    by (simp add: loop_eq Let_def frameTime_def MAX_FRAME_TIME_def initial_sched_def)
qed

text \<open>
  In exact arithmetic the loop makes exactly \<open>floor((A + F) / DT)\<close> calls when \<open>A + F\<close>
  is not negative, and leaves the remainder of the division.
\<close>

lemma exact_tick_count:
  assumes "0 \<le> accumulator s" and "previousTime s \<le> currentTime"
  shows "let A = accumulator s;
             F = frameTime currentTime (previousTime s);
             n = nat \<lfloor>(A + F) / DT\<rfloor>;
             rest = A + F - real n * DT
         in int n = \<lfloor>(A + F) / DT\<rfloor>
          \<and> update_calls (A + F) = replicate n DT \<and> DT = 1 / 60
          \<and> while_accumulator update (A + F) game0 = (rest, ((\<lambda>g. update g DT) ^^ n) game0)
          \<and> fst (loop render currentTime s game)
              = \<lparr>previousTime = currentTime, accumulator = rest\<rparr>
          \<and> fst (snd (loop render currentTime s game)) = ((\<lambda>g. Game_update g DT) ^^ n) game
          \<and> 0 \<le> rest \<and> rest < DT"
proof -
  let ?acc = "accumulator s + frameTime currentTime (previousTime s)"
  have acc: "0 \<le> ?acc"
    using assms frameTime_nonneg [of "previousTime s" currentTime] by simp
  then have "0 \<le> ?acc / DT"
    by (simp add: DT_def)
  then have n: "int (nat \<lfloor>?acc / DT\<rfloor>) = \<lfloor>?acc / DT\<rfloor>"
    by simp
  show ?thesis
    unfolding Let_def
    using n remainder_bounds [OF acc]
    by (simp add: update_calls_eq while_accumulator_eq loop_eq Let_def DT_def)
qed




subsection \<open>Game\<close>

text \<open>
  C3. After \<open>Game.update(dt)\<close>, every entity whose bounding-box \<open>y\<close>, after its own
  update, exceeds \<open>tiles.length * 24\<close> is finished; every entity whose \<open>y\<close> does not
  exceed it and that was alive before is still alive; the collection keeps its length and
  its order, no entity is removed.
\<close>

theorem game_update_culls:
  assumes "i < length (entities g)"
  shows "let e = entities g ! i;
             e' = Entity_update e dt;
             e'' = entities (Game_update g dt) ! i;
             limit = real (length (tiles g)) * 24
         in length (entities (Game_update g dt)) = length (entities g)
          \<and> bb e'' = bb e'
          \<and> (BoundingBox.y (bb e') > limit \<longrightarrow> finished e'')
          \<and> (\<not> BoundingBox.y (bb e') > limit \<and> \<not> finished e \<longrightarrow> \<not> finished e'')
          \<and> finished e'' = (finished e \<or> BoundingBox.y (bb e') > limit)"
  using assms
  by (simp add: Let_def Game_update_length Game_update_nth update_entity_bb
      update_entity_finished Tile_size_def)

theorem game_update_culls_witness:
  "let g = \<lparr>tiles = [[], [], []],
            entities = [new_Entity ''red'' (new_BoundingBox 0 72 10 10) (new_Vector 0 48),
                        new_Entity ''blue'' (new_BoundingBox 0 0 10 10) (new_Vector 0 48)]\<rparr>
   in 0 < length (entities g) \<and> 1 < length (entities g)
    \<and> BoundingBox.y (bb (Entity_update (entities g ! 0) DT)) > real (length (tiles g)) * 24
    \<and> finished (entities (Game_update g DT) ! 0)
    \<and> \<not> BoundingBox.y (bb (Entity_update (entities g ! 1) DT)) > real (length (tiles g)) * 24
    \<and> \<not> finished (entities g ! 1)
    \<and> \<not> finished (entities (Game_update g DT) ! 1)
    \<and> length (entities (Game_update g DT)) = 2"
  using game_update_culls
          [of 0 "\<lparr>tiles = [[], [], []],
            entities = [new_Entity ''red'' (new_BoundingBox 0 72 10 10) (new_Vector 0 48),
                        new_Entity ''blue'' (new_BoundingBox 0 0 10 10) (new_Vector 0 48)]\<rparr>" DT]
        game_update_culls
          [of 1 "\<lparr>tiles = [[], [], []],
            entities = [new_Entity ''red'' (new_BoundingBox 0 72 10 10) (new_Vector 0 48),
                        new_Entity ''blue'' (new_BoundingBox 0 0 10 10) (new_Vector 0 48)]\<rparr>" DT]
  by (simp add: Let_def new_Entity_def new_BoundingBox_def new_Vector_def DT_def
      Entity_update_def handleEvents_def getCollidingEntities_def updatePosition_def)

text \<open>
  C8. The dead state is one-way: an entity that is finished stays finished through
  \<open>Entity.update\<close>, \<open>Entity.die\<close>, \<open>Game.update\<close>, any number of ticks and a whole
  trigger of the scheduler; \<open>die\<close> sets the flag and nothing else, and the collection
  keeps every entity.
\<close>

theorem finished_is_permanent:
  assumes "finished e" and "i < length (entities g)" and "entities g ! i = e"
  shows "finished (Entity_update e dt) \<and> finished (die e)
       \<and> finished (entities (Game_update g dt) ! i)
       \<and> finished (entities (((\<lambda>g. Game_update g dt) ^^ n) g) ! i)
       \<and> finished (entities (fst (snd (loop render currentTime s g))) ! i)
       \<and> finished (die e0) \<and> die e0 = e0\<lparr>finished := True\<rparr>
       \<and> length (entities (Game_update g dt)) = length (entities g)
       \<and> length (entities (((\<lambda>g. Game_update g dt) ^^ n) g)) = length (entities g)
       \<and> length (entities (fst (snd (loop render currentTime s g)))) = length (entities g)"
  using assms ticks_finished [of i g]
  by (simp add: Entity_update_finished die_def Game_update_nth update_entity_finished
      Game_update_length ticks_length loop_eq Let_def)

theorem finished_is_permanent_witness:
  "let e = die (new_Entity ''red'' (new_BoundingBox 0 0 10 10) (new_Vector 0 (- 48)));
       g = \<lparr>tiles = [[], [], []], entities = [e]\<rparr>
   in finished e \<and> 0 < length (entities g) \<and> entities g ! 0 = e
    \<and> finished (Entity_update e DT)
    \<and> finished (entities (Game_update g DT) ! 0)
    \<and> length (entities (Game_update g DT)) = 1"
  using finished_is_permanent
          [of "die (new_Entity ''red'' (new_BoundingBox 0 0 10 10) (new_Vector 0 (- 48)))" 0
              "\<lparr>tiles = [[], [], []],
                entities = [die (new_Entity ''red'' (new_BoundingBox 0 0 10 10)
                                   (new_Vector 0 (- 48)))]\<rparr>" DT]
  by (simp add: Let_def die_def new_Entity_def)

subsection \<open>Main\<close>

text \<open>
  C4. The grid \<open>main\<close> builds has one trailing empty row more than the map:
  \<open>tiles.length = map.length + 1\<close> and the last row is empty, so the culling threshold of
  the running game is \<open>(map rows + 1) * 24 = 1032\<close>, not \<open>map rows * 24 = 1008\<close>; for
  every map row \<open>r\<close> and column \<open>c\<close> the tile \<open>tiles[r][c]\<close> has \<open>id = map[r][c]\<close>,
  \<open>row = r\<close> and \<open>col = c\<close>. The construction never throws.
\<close>

theorem build_tiles_extra_row:
  "(\<exists>ts. build_tiles m = Inr ts \<and> length ts = length m + 1 \<and> last ts = []
        \<and> (\<forall>r<length m. length (ts ! r) = length (m ! r)
              \<and> (\<forall>c<length (m ! r).
                    ts ! r ! c = new_Tile (m ! r ! c) (real r) (real c)
                  \<and> Tile.id (ts ! r ! c) = m ! r ! c
                  \<and> row (ts ! r ! c) = real r \<and> col (ts ! r ! c) = real c)))
   \<and> (\<exists>g. main = Inr g \<and> build_tiles level_map = Inr (tiles g) \<and> entities g = []
         \<and> length level_map = 42 \<and> length (tiles g) = length level_map + 1
         \<and> real (length (tiles g)) * Tile_size = (real (length level_map) + 1) * 24
         \<and> real (length (tiles g)) * Tile_size = 1032
         \<and> real (length level_map) * 24 = (1008 :: real)
         \<and> update_entity g dt e =
             (if BoundingBox.y (bb (Entity_update e dt)) > 1032
              then die (Entity_update e dt) else Entity_update e dt))"
proof -
  let ?ts = "\<lambda>m. map (\<lambda>r. tile_row m r 0) [0..<length m] @ [[]]"
  have cell: "?ts m ! r ! c = new_Tile (m ! r ! c) (real r) (real c)"
    if "r < length m" and "c < length (m ! r)" for m r c
    using that by (simp add: nth_append tile_row_def)
  have len: "length (?ts m ! r) = length (m ! r)" if "r < length m" for m r
    using that by (simp add: nth_append tile_row_def)
  have first: "\<exists>ts. build_tiles m = Inr ts \<and> length ts = length m + 1 \<and> last ts = []
        \<and> (\<forall>r<length m. length (ts ! r) = length (m ! r)
              \<and> (\<forall>c<length (m ! r).
                    ts ! r ! c = new_Tile (m ! r ! c) (real r) (real c)
                  \<and> Tile.id (ts ! r ! c) = m ! r ! c
                  \<and> row (ts ! r ! c) = real r \<and> col (ts ! r ! c) = real c))"
  proof (intro exI [of _ "?ts m"] conjI allI impI)
    show "build_tiles m = Inr (?ts m)" by (rule build_tiles_eq)
    show "length (?ts m) = length m + 1" by simp
    show "last (?ts m) = []" by simp
  next
    fix r assume "r < length m"
    then show "length (?ts m ! r) = length (m ! r)" by (rule len)
  next
    fix r c assume rc: "r < length m" "c < length (m ! r)"
    then show "?ts m ! r ! c = new_Tile (m ! r ! c) (real r) (real c)" by (rule cell)
    then show "Tile.id (?ts m ! r ! c) = m ! r ! c" "row (?ts m ! r ! c) = real r"
      "col (?ts m ! r ! c) = real c"
      by (simp_all add: new_Tile_def)
  qed
  let ?g = "\<lparr>tiles = ?ts level_map, entities = []\<rparr>"
  have m: "main = Inr ?g"
    by (simp add: main_def build_tiles_eq)
  have l: "length (tiles ?g) = 43"
    by (simp add: level_map_length)
  have "update_entity ?g dt e =
             (if BoundingBox.y (bb (Entity_update e dt)) > 1032
              then die (Entity_update e dt) else Entity_update e dt)"
    unfolding update_entity_def Let_def l by (simp add: Tile_size_def)
  with m l have "\<exists>g. main = Inr g \<and> build_tiles level_map = Inr (tiles g) \<and> entities g = []
         \<and> length level_map = 42 \<and> length (tiles g) = length level_map + 1
         \<and> real (length (tiles g)) * Tile_size = (real (length level_map) + 1) * 24
         \<and> real (length (tiles g)) * Tile_size = 1032
         \<and> real (length level_map) * 24 = (1008 :: real)
         \<and> update_entity g dt e =
             (if BoundingBox.y (bb (Entity_update e dt)) > 1032
              then die (Entity_update e dt) else Entity_update e dt)"
    by (intro exI [of _ ?g]) (simp add: build_tiles_eq level_map_length Tile_size_def)
  with first show ?thesis
    by (rule conjI)
qed

theorem build_tiles_extra_row_witness:
  "1 < length level_map \<and> 24 < length (level_map ! 1)
   \<and> (\<exists>ts. build_tiles level_map = Inr ts \<and> length ts = 43 \<and> last ts = []
          \<and> length (ts ! 1) = 25
          \<and> Tile.id (ts ! 1 ! 24) = 2 \<and> row (ts ! 1 ! 24) = 1 \<and> col (ts ! 1 ! 24) = 24)"
proof -
  have r: "1 < length level_map" and c: "24 < length (level_map ! 1)"
    and v: "level_map ! 1 ! 24 = 2" and n: "length (level_map ! 1) = 25"
    by (simp_all add: level_map_length level_map_row_1 cells_def cell_def)
  from build_tiles_extra_row [of level_map]
  obtain ts where ts: "build_tiles level_map = Inr ts" "length ts = length level_map + 1"
      "last ts = []"
      "\<forall>r<length level_map. length (ts ! r) = length (level_map ! r)
              \<and> (\<forall>c<length (level_map ! r).
                    ts ! r ! c = new_Tile (level_map ! r ! c) (real r) (real c)
                  \<and> Tile.id (ts ! r ! c) = level_map ! r ! c
                  \<and> row (ts ! r ! c) = real r \<and> col (ts ! r ! c) = real c)"
    by blast
  from ts(4) r c have "length (ts ! 1) = length (level_map ! 1)"
    "Tile.id (ts ! 1 ! 24) = level_map ! 1 ! 24" "row (ts ! 1 ! 24) = real 1"
    "col (ts ! 1 ! 24) = real 24"
    by (auto simp: new_Tile_def)
  with ts(1-3) r c v n show ?thesis
    by (simp add: level_map_length)
qed

end
